theory Spec2Isabelle
  imports Main "HOL-Library.AList" "HOL-Library.Word"
begin

section \<open>The to-do backend: the in-memory Store and its endpoints\<close>

text \<open>
  The backend is the FastAPI main file (\<^verbatim>\<open>app/main.py\<close>). Its state is one module-level
  dictionary \<^verbatim>\<open>todos: Dict[UUID, TodoItem]\<close>. Every endpoint is modelled as a function
  that takes the dictionary and returns the dictionary after the call together with the
  outcome: \<open>Inl\<close> of the \<^verbatim>\<open>HTTPException\<close> raised, or \<open>Inr\<close> of the value returned.
\<close>

subsection \<open>Data\<close>

type_synonym uuid = "128 word"

text \<open>A \<^verbatim>\<open>datetime\<close> is an opaque point in time; only equality of timestamps is used.\<close>

type_synonym datetime = nat

text \<open>
  \<^verbatim>\<open>class TodoItem(BaseModel)\<close>: \<^verbatim>\<open>id: UUID\<close>, \<^verbatim>\<open>title: str\<close>, \<^verbatim>\<open>created_at: datetime\<close>.
  (The field \<^verbatim>\<open>id\<close> is called \<open>item_id\<close> here, \<open>id\<close> being the identity function of HOL.)
\<close>

record TodoItem =
  item_id :: uuid
  title :: string
  created_at :: datetime

text \<open>
  The JSON body of a request, before validation: \<^verbatim>\<open>id\<close> and \<^verbatim>\<open>created_at\<close> may be left
  out, \<^verbatim>\<open>title\<close> is required.
\<close>

record TodoBody =
  body_id :: "uuid option"
  body_title :: string
  body_created_at :: "datetime option"

text \<open>
  Validation of a body into a \<^verbatim>\<open>TodoItem\<close>: a field that was left out takes the value of
  its \<^verbatim>\<open>default_factory\<close>. The values that \<^verbatim>\<open>uuid4()\<close> and \<^verbatim>\<open>datetime.now()\<close> return at
  that moment are parameters. A \<^verbatim>\<open>title\<close> is any \<^verbatim>\<open>str\<close>: the model declares no
  constraint on it.
\<close>

definition TodoItem_validate :: "TodoBody \<Rightarrow> uuid \<Rightarrow> datetime \<Rightarrow> TodoItem" where
  "TodoItem_validate body uuid4 now =
     \<lparr> item_id = (case body_id body of None \<Rightarrow> uuid4 | Some i \<Rightarrow> i),
       title = body_title body,
       created_at = (case body_created_at body of None \<Rightarrow> now | Some t \<Rightarrow> t) \<rparr>"

text \<open>\<^verbatim>\<open>HTTPException(status_code=..., detail=...)\<close>\<close>

record HTTPException =
  status_code :: nat
  detail :: string

definition not_found :: HTTPException where
  "not_found = \<lparr> status_code = 404, detail = ''Todo not found'' \<rparr>"

subsection \<open>The dictionary\<close>

text \<open>
  A Python \<^verbatim>\<open>dict\<close> keeps its keys in insertion order: assigning to a key that is present
  replaces the value in place, assigning to a new key appends, \<^verbatim>\<open>del\<close> removes the entry.
  This is an association list with \<open>AList.update\<close> and \<open>AList.delete\<close>.
\<close>

type_synonym store = "(uuid \<times> TodoItem) list"

definition dict_contains :: "'k \<Rightarrow> ('k \<times> 'v) list \<Rightarrow> bool" where
  "dict_contains k d = (k \<in> set (map fst d))"

definition dict_keys :: "('k \<times> 'v) list \<Rightarrow> 'k list" where
  "dict_keys d = map fst d"

definition dict_values :: "('k \<times> 'v) list \<Rightarrow> 'v list" where
  "dict_values d = map snd d"

definition dict_setitem :: "'k \<Rightarrow> 'v \<Rightarrow> ('k \<times> 'v) list \<Rightarrow> ('k \<times> 'v) list" where
  "dict_setitem k v d = AList.update k v d"

definition dict_delitem :: "'k \<Rightarrow> ('k \<times> 'v) list \<Rightarrow> ('k \<times> 'v) list" where
  "dict_delitem k d = AList.delete k d"

definition dict_getitem :: "'k \<Rightarrow> ('k \<times> 'v) list \<Rightarrow> 'v option" where
  "dict_getitem k d = map_of d k"

subsection \<open>Endpoints\<close>

text \<open>
  \<^verbatim>\<open>not todo.id\<close>: the class \<^verbatim>\<open>UUID\<close> defines neither \<^verbatim>\<open>__bool__\<close> nor \<^verbatim>\<open>__len__\<close>, so
  every \<^verbatim>\<open>UUID\<close> object is true, the nil UUID included.
\<close>

definition uuid_truth :: "uuid \<Rightarrow> bool" where
  "uuid_truth u = True"

text \<open>\<^verbatim>\<open>GET /api/todos\<close>: \<^verbatim>\<open>return list(todos.values())\<close>\<close>

definition get_todos :: "store \<Rightarrow> store \<times> (HTTPException + TodoItem list)" where
  "get_todos todos = (todos, Inr (dict_values todos))"

text \<open>
  \<^verbatim>\<open>POST /api/todos\<close>. The argument \<open>todo\<close> is the validated body; \<open>uuid4\<close> is the value
  a call of \<^verbatim>\<open>uuid4()\<close> in the body of the function would return. The local
  \<^verbatim>\<open>todo_dict\<close> is never read.
\<close>

definition create_todo :: "TodoItem \<Rightarrow> uuid \<Rightarrow> store \<Rightarrow> store \<times> (HTTPException + TodoItem)" where
  "create_todo todo uuid4 todos =
     (let todo1 = (if \<not> uuid_truth (item_id todo) then todo\<lparr>item_id := uuid4\<rparr> else todo)
      in (dict_setitem (item_id todo1) todo1 todos, Inr todo1))"

text \<open>\<^verbatim>\<open>GET /api/todos/{todo_id}\<close>\<close>

definition get_todo :: "uuid \<Rightarrow> store \<Rightarrow> store \<times> (HTTPException + TodoItem)" where
  "get_todo todo_id todos =
     (case dict_getitem todo_id todos of
        None \<Rightarrow> (todos, Inl not_found)
      | Some t \<Rightarrow> (todos, Inr t))"

text \<open>\<^verbatim>\<open>PUT /api/todos/{todo_id}\<close>: the stored \<^verbatim>\<open>created_at\<close> is copied into the new record.\<close>

definition update_todo ::
  "uuid \<Rightarrow> TodoItem \<Rightarrow> store \<Rightarrow> store \<times> (HTTPException + TodoItem)" where
  "update_todo todo_id updated_todo todos =
     (case dict_getitem todo_id todos of
        None \<Rightarrow> (todos, Inl not_found)
      | Some old \<Rightarrow>
          (let updated1 = updated_todo\<lparr>created_at := created_at old\<rparr>
           in (dict_setitem todo_id updated1 todos, Inr updated1)))"

text \<open>\<^verbatim>\<open>DELETE /api/todos/{todo_id}\<close>\<close>

definition delete_todo :: "uuid \<Rightarrow> store \<Rightarrow> store \<times> (HTTPException + string)" where
  "delete_todo todo_id todos =
     (if \<not> dict_contains todo_id todos then (todos, Inl not_found)
      else (dict_delitem todo_id todos, Inr ''Todo deleted successfully''))"

subsection \<open>Sequences of create and delete requests\<close>

text \<open>
  A create request carries the validated record and the value \<^verbatim>\<open>uuid4()\<close> would return
  inside the endpoint; a delete request carries the identifier of the path. A request
  that raises leaves the dictionary as it is, and the next request is served.
\<close>

datatype store_op = Create TodoItem uuid | Delete uuid

fun apply_op :: "store \<Rightarrow> store_op \<Rightarrow> store" where
  "apply_op todos (Create todo uuid4) = fst (create_todo todo uuid4 todos)"
| "apply_op todos (Delete todo_id) = fst (delete_todo todo_id todos)"

definition run_ops :: "store_op list \<Rightarrow> store" where
  "run_ops ops = foldl apply_op [] ops"

text \<open>The identifiers of the records that \<^verbatim>\<open>GET /api/todos\<close> returns.\<close>

definition list_ids :: "store \<Rightarrow> uuid list" where
  "list_ids todos = (case snd (get_todos todos) of Inl e \<Rightarrow> [] | Inr ts \<Rightarrow> map item_id ts)"

text \<open>Every record is stored under its own identifier.\<close>

definition keyed :: "store \<Rightarrow> bool" where
  "keyed todos = list_all (\<lambda>p. item_id (snd p) = fst p) todos"

text \<open>
  The identifiers that a sequence of requests has created and not deleted afterwards: \<open>i\<close>
  is one when some request of the sequence creates the record with identifier \<open>i\<close> and no
  later request of the sequence deletes \<open>i\<close>.
\<close>

definition live_ids :: "store_op list \<Rightarrow> uuid set" where
  "live_ids ops =
     {i. \<exists>k<length ops. (\<exists>todo uuid4. ops ! k = Create todo uuid4 \<and> item_id todo = i) \<and>
           (\<forall>j. k < j \<and> j < length ops \<longrightarrow> ops ! j \<noteq> Delete i)}"

section \<open>The client\<close>

subsection \<open>The input form (\<^verbatim>\<open>TodoInput\<close>)\<close>

text \<open>
  The text of the input field is a JavaScript string: a sequence of 16-bit code units.
\<close>

type_synonym js_string = "16 word list"

text \<open>
  \<^verbatim>\<open>String.prototype.trim\<close> removes white space and line terminators from both ends.
  White space is TAB, VT, FF, the byte order mark U+FEFF and the code points of the
  category Zs (U+0020, U+00A0, U+1680, U+2000 to U+200A, U+202F, U+205F, U+3000); the
  line terminators are LF, CR, U+2028 and U+2029. Each of them is one code unit.
\<close>

definition is_white_space :: "16 word \<Rightarrow> bool" where
  "is_white_space u =
     (unat u \<in> set [0x0009, 0x000B, 0x000C, 0xFEFF,
                     0x0020, 0x00A0, 0x1680, 0x202F, 0x205F, 0x3000,
                     0x000A, 0x000D, 0x2028, 0x2029]
      \<or> (0x2000 \<le> unat u \<and> unat u \<le> 0x200A))"

definition trim :: "js_string \<Rightarrow> js_string" where
  "trim s = rev (dropWhile is_white_space (rev (dropWhile is_white_space s)))"

text \<open>The code units of a text of 8-bit characters, for writing examples.\<close>

definition js :: "string \<Rightarrow> js_string" where
  "js s = map (\<lambda>c. of_nat (of_char c)) s"

text \<open>
  \<^verbatim>\<open>handleSubmit\<close>: the state of the component is the text of the input field. The result
  is the argument of the call of \<^verbatim>\<open>onAddTodo\<close>, if it is called, and the text of the
  field afterwards. A string is true when it is not empty.
\<close>

definition handleSubmit :: "js_string \<Rightarrow> js_string option \<times> js_string" where
  "handleSubmit title_field =
     (if trim title_field \<noteq> [] then (Some (trim title_field), []) else (None, title_field))"

subsection \<open>The state of \<^verbatim>\<open>App\<close> and the messages of the WebSocket\<close>

text \<open>
  The \<^verbatim>\<open>TodoItem\<close> of the client (\<^verbatim>\<open>types/index.ts\<close>): three strings.
\<close>

record TodoItem_ts =
  ts_id :: string
  ts_title :: string
  ts_created_at :: string

text \<open>
  A parsed message \<^verbatim>\<open>data\<close>: the tag \<^verbatim>\<open>data.type\<close> and the payload fields \<^verbatim>\<open>data.todos\<close>,
  \<^verbatim>\<open>data.todo\<close> and \<^verbatim>\<open>data.id\<close>. A case of the handler reads only the field of its own
  tag.
\<close>

record ws_data =
  data_type :: string
  data_todos :: "TodoItem_ts list"
  data_todo :: TodoItem_ts
  data_id :: string

text \<open>The three \<^verbatim>\<open>useState\<close> cells of \<^verbatim>\<open>App\<close>, with their initial values.\<close>

record App_state =
  todos :: "TodoItem_ts list"
  error :: "string option"
  wsConnected :: bool

definition App_initial :: App_state where
  "App_initial = \<lparr> todos = [], error = None, wsConnected = False \<rparr>"

text \<open>
  \<^verbatim>\<open>handleWebSocketMessage\<close>: the \<^verbatim>\<open>switch\<close> on \<^verbatim>\<open>data.type\<close>. A functional update
  \<^verbatim>\<open>setTodos(f)\<close> applies \<open>f\<close> to the current list. The default case only logs.
\<close>

definition handleWebSocketMessage :: "ws_data \<Rightarrow> App_state \<Rightarrow> App_state" where
  "handleWebSocketMessage d s =
     (if data_type d = ''init'' then s\<lparr>todos := data_todos d, wsConnected := True\<rparr>
      else if data_type d = ''create'' then s\<lparr>todos := todos s @ [data_todo d]\<rparr>
      else if data_type d = ''update'' then
        s\<lparr>todos := map (\<lambda>todo. if ts_id todo = ts_id (data_todo d) then data_todo d else todo)
                      (todos s)\<rparr>
      else if data_type d = ''delete'' then
        s\<lparr>todos := filter (\<lambda>todo. ts_id todo \<noteq> data_id d) (todos s)\<rparr>
      else s)"

text \<open>
  \<^verbatim>\<open>loadTodos\<close> is an \<^verbatim>\<open>async\<close> function: it runs up to the \<^verbatim>\<open>await\<close>
  (\<open>loadTodos_start\<close>) and resumes when the request settles (\<open>loadTodos_resume\<close>), with
  \<open>Some data\<close> for the list fetched and \<open>None\<close> for a rejected promise. Every call of
  \<^verbatim>\<open>App\<close> binds \<^verbatim>\<open>const [wsConnected, setWsConnected]\<close> anew and creates a new
  \<^verbatim>\<open>loadTodos\<close> closed over that binding, so the \<^verbatim>\<open>wsConnected\<close> that the body reads is
  the constant of the render in which this \<^verbatim>\<open>loadTodos\<close> was created, not the current
  content of the cell: it is the first argument.
\<close>

definition loadTodos_start :: "App_state \<Rightarrow> App_state" where
  "loadTodos_start s = s\<lparr>error := None\<rparr>"

definition loadTodos_resume ::
  "bool \<Rightarrow> TodoItem_ts list option \<Rightarrow> App_state \<Rightarrow> App_state" where
  "loadTodos_resume wsConnected_of_render settled s =
     (case settled of
        Some data \<Rightarrow> (if \<not> wsConnected_of_render then s\<lparr>todos := data\<rparr> else s)
      | None \<Rightarrow> s\<lparr>error := Some ''Failed to load todos. Please try again later.''\<rparr>)"

text \<open>The text beside the coloured dot.\<close>

definition indicator :: "App_state \<Rightarrow> string" where
  "indicator s = (if wsConnected s then ''Live updates connected'' else ''Offline mode'')"

subsection \<open>The WebSocket service (\<^verbatim>\<open>services/api.ts\<close>)\<close>

datatype readyState = CONNECTING | OPEN | CLOSING | CLOSED

text \<open>
  A \<^verbatim>\<open>WebSocket\<close> object: its \<^verbatim>\<open>readyState\<close>, and whether its \<^verbatim>\<open>onclose\<close> property holds
  the handler (\<open>True\<close>) or \<^verbatim>\<open>null\<close> (\<open>False\<close>).
\<close>

record WebSocket =
  ws_readyState :: readyState
  ws_onclose :: bool

text \<open>
  The module variables \<^verbatim>\<open>socket\<close>, \<^verbatim>\<open>reconnectTimeout\<close> and \<^verbatim>\<open>isConnecting\<close>, and the part
  of the environment they refer to: the \<^verbatim>\<open>WebSocket\<close> objects created so far (an object
  is named by its position) and the timeouts that are pending, each with its handle and
  its delay in milliseconds. \<^verbatim>\<open>setTimeout\<close> returns positive handles.
\<close>

record api_state =
  sockets :: "WebSocket list"
  socket :: "nat option"
  reconnectTimeout :: "nat option"
  isConnecting :: bool
  timers :: "(nat \<times> nat) list"
  next_timer :: nat

definition api_initial :: api_state where
  "api_initial = \<lparr> sockets = [], socket = None, reconnectTimeout = None,
                    isConnecting = False, timers = [], next_timer = 1 \<rparr>"

text \<open>\<^verbatim>\<open>if (reconnectTimeout)\<close>: \<^verbatim>\<open>null\<close> and \<open>0\<close> are false.\<close>

definition timeout_truth :: "nat option \<Rightarrow> bool" where
  "timeout_truth t = (case t of None \<Rightarrow> False | Some h \<Rightarrow> h \<noteq> 0)"

definition clearTimeout :: "nat option \<Rightarrow> api_state \<Rightarrow> api_state" where
  "clearTimeout t st =
     (case t of None \<Rightarrow> st
      | Some h \<Rightarrow> st\<lparr>timers := filter (\<lambda>p. fst p \<noteq> h) (timers st)\<rparr>)"

text \<open>\<^verbatim>\<open>setTimeout(f, delay)\<close>: the handle returned and the state with the timeout pending.\<close>

definition setTimeout :: "nat \<Rightarrow> api_state \<Rightarrow> nat \<times> api_state" where
  "setTimeout delay st =
     (next_timer st,
      st\<lparr>timers := timers st @ [(next_timer st, delay)], next_timer := Suc (next_timer st)\<rparr>)"

definition socket_is_open :: "api_state \<Rightarrow> bool" where
  "socket_is_open st =
     (case socket st of None \<Rightarrow> False
      | Some h \<Rightarrow> h < length (sockets st) \<and> ws_readyState (sockets st ! h) = OPEN)"

text \<open>
  \<^verbatim>\<open>connectWebSocket\<close>. The value returned is the \<^verbatim>\<open>socket\<close> of the state afterwards.
  \<^verbatim>\<open>new WebSocket(WS_URL)\<close> makes an object in state \<^verbatim>\<open>CONNECTING\<close>; the four handlers are
  then assigned to it.
\<close>

definition connectWebSocket :: "api_state \<Rightarrow> api_state" where
  "connectWebSocket st =
     (if isConnecting st then st
      else if socket_is_open st then st
      else
        (let st1 = (if timeout_truth (reconnectTimeout st)
                    then (clearTimeout (reconnectTimeout st) st)\<lparr>reconnectTimeout := None\<rparr>
                    else st)
         in st1\<lparr> isConnecting := True,
                 socket := Some (length (sockets st1)),
                 sockets := sockets st1 @ [\<lparr> ws_readyState = CONNECTING, ws_onclose = True \<rparr>] \<rparr>))"

text \<open>The handlers \<^verbatim>\<open>socket.onopen\<close>, \<^verbatim>\<open>socket.onerror\<close> and \<^verbatim>\<open>socket.onclose\<close>.\<close>

definition socket_onopen :: "api_state \<Rightarrow> api_state" where
  "socket_onopen st = st\<lparr>isConnecting := False\<rparr>"

definition socket_onerror :: "api_state \<Rightarrow> api_state" where
  "socket_onerror st = st\<lparr>isConnecting := False\<rparr>"

definition socket_onclose :: "api_state \<Rightarrow> api_state" where
  "socket_onclose st =
     (let st1 = st\<lparr>isConnecting := False\<rparr>;
          (h, st2) = setTimeout 5000 st1
      in st2\<lparr>reconnectTimeout := Some h\<rparr>)"

text \<open>\<^verbatim>\<open>disconnectWebSocket\<close>; \<^verbatim>\<open>socket.close()\<close> moves the object to \<^verbatim>\<open>CLOSING\<close>.\<close>

definition disconnectWebSocket :: "api_state \<Rightarrow> api_state" where
  "disconnectWebSocket st =
     (let st1 = (if timeout_truth (reconnectTimeout st)
                 then (clearTimeout (reconnectTimeout st) st)\<lparr>reconnectTimeout := None\<rparr>
                 else st);
          st2 = (case socket st1 of
                   None \<Rightarrow> st1
                 | Some h \<Rightarrow>
                     (if h < length (sockets st1) then
                        (let w = (sockets st1 ! h)\<lparr>ws_onclose := False\<rparr>;
                             w1 = (if ws_readyState w = OPEN \<or> ws_readyState w = CONNECTING
                                   then w\<lparr>ws_readyState := CLOSING\<rparr> else w)
                         in st1\<lparr>sockets := (sockets st1)[h := w1], socket := None\<rparr>)
                      else st1\<lparr>socket := None\<rparr>))
      in st2\<lparr>isConnecting := False\<rparr>)"

subsection \<open>The page: \<^verbatim>\<open>App\<close> together with the service\<close>

record page =
  app :: App_state
  api :: api_state

text \<open>
  What the browser delivers to the page after the mount: the events of a \<^verbatim>\<open>WebSocket\<close>
  object, a timeout that fires, the settling of the request that \<^verbatim>\<open>loadTodos\<close> awaits,
  and the unmount, which runs the cleanup of the effect.
\<close>

datatype page_event =
    SocketOpen nat
  | SocketMessage nat ws_data
  | SocketError nat
  | SocketClose nat
  | TimerFire nat
  | FetchSettled "TodoItem_ts list option"
  | Unmount

text \<open>
  The effect of \<^verbatim>\<open>App\<close> has the dependency list \<^verbatim>\<open>[]\<close>: it runs once, after the first
  render, and calls \<^verbatim>\<open>loadTodos()\<close> and \<^verbatim>\<open>connectWebSocket(handleWebSocketMessage)\<close> of
  that render.
\<close>

definition App_mount :: page where
  "App_mount = \<lparr> app = loadTodos_start App_initial, api = connectWebSocket api_initial \<rparr>"

text \<open>
  One event. The browser sets \<^verbatim>\<open>readyState\<close> before it calls \<^verbatim>\<open>onopen\<close> or \<^verbatim>\<open>onclose\<close>;
  \<^verbatim>\<open>onclose\<close> runs only while the property holds the handler. A timeout that fires
  leaves the pending ones and calls \<^verbatim>\<open>connectWebSocket\<close>. The \<^verbatim>\<open>loadTodos\<close> that resumes
  is the one of the first render, whose \<^verbatim>\<open>wsConnected\<close> is the initial value of the cell.
\<close>

fun page_step :: "page \<Rightarrow> page_event \<Rightarrow> page" where
  "page_step p (SocketOpen h) =
     (if h < length (sockets (api p)) then
        p\<lparr>api := socket_onopen
                   ((api p)\<lparr>sockets := (sockets (api p))
                              [h := (sockets (api p) ! h)\<lparr>ws_readyState := OPEN\<rparr>]\<rparr>)\<rparr>
      else p)"
| "page_step p (SocketMessage h d) =
     (if h < length (sockets (api p)) then p\<lparr>app := handleWebSocketMessage d (app p)\<rparr>
      else p)"
| "page_step p (SocketError h) =
     (if h < length (sockets (api p)) then p\<lparr>api := socket_onerror (api p)\<rparr> else p)"
| "page_step p (SocketClose h) =
     (if h < length (sockets (api p)) then
        (let a = (api p)\<lparr>sockets := (sockets (api p))
                            [h := (sockets (api p) ! h)\<lparr>ws_readyState := CLOSED\<rparr>]\<rparr>
         in if ws_onclose (sockets (api p) ! h) then p\<lparr>api := socket_onclose a\<rparr>
            else p\<lparr>api := a\<rparr>)
      else p)"
| "page_step p (TimerFire h) =
     (if h \<in> set (map fst (timers (api p))) then
        p\<lparr>api := connectWebSocket
                   ((api p)\<lparr>timers := filter (\<lambda>q. fst q \<noteq> h) (timers (api p))\<rparr>)\<rparr>
      else p)"
| "page_step p (FetchSettled r) =
     p\<lparr>app := loadTodos_resume (wsConnected App_initial) r (app p)\<rparr>"
| "page_step p Unmount = p\<lparr>api := disconnectWebSocket (api p)\<rparr>"

definition page_run :: "page_event list \<Rightarrow> page" where
  "page_run evs = foldl page_step App_mount evs"

text \<open>Whether the \<^verbatim>\<open>WebSocket\<close> that \<^verbatim>\<open>socket\<close> refers to is open.\<close>

definition live_connection :: "page \<Rightarrow> bool" where
  "live_connection p = socket_is_open (api p)"

section \<open>Example data\<close>

definition milk :: TodoItem where
  "milk = \<lparr> item_id = 1, title = ''Buy milk'', created_at = 10 \<rparr>"

definition mom :: TodoItem where
  "mom = \<lparr> item_id = 2, title = ''Call mom'', created_at = 20 \<rparr>"

definition untitled :: TodoItem where
  "untitled = \<lparr> item_id = 3, title = [], created_at = 30 \<rparr>"

definition milk_ts :: TodoItem_ts where
  "milk_ts = \<lparr> ts_id = ''a1'', ts_title = ''Buy milk'', ts_created_at = ''2025-04-17T10:00:00'' \<rparr>"

definition mom_ts :: TodoItem_ts where
  "mom_ts = \<lparr> ts_id = ''b2'', ts_title = ''Call mom'', ts_created_at = ''2025-04-17T11:00:00'' \<rparr>"

definition no_todo :: TodoItem_ts where
  "no_todo = \<lparr> ts_id = [], ts_title = [], ts_created_at = [] \<rparr>"

definition init_message :: "TodoItem_ts list \<Rightarrow> ws_data" where
  "init_message ts = \<lparr> data_type = ''init'', data_todos = ts, data_todo = no_todo, data_id = [] \<rparr>"

definition create_message :: "TodoItem_ts \<Rightarrow> ws_data" where
  "create_message t = \<lparr> data_type = ''create'', data_todos = [], data_todo = t, data_id = [] \<rparr>"

definition delete_message :: "string \<Rightarrow> ws_data" where
  "delete_message i = \<lparr> data_type = ''delete'', data_todos = [], data_todo = no_todo, data_id = i \<rparr>"

definition ping_message :: ws_data where
  "ping_message = \<lparr> data_type = ''ping'', data_todos = [mom_ts], data_todo = mom_ts, data_id = ''a1'' \<rparr>"

section \<open>Properties of the Store\<close>

subsection \<open>The dictionary\<close>

lemma dict_keys_setitem:
  "set (dict_keys (dict_setitem k v d)) = insert k (set (dict_keys d))"
  by (auto simp: dict_keys_def dict_setitem_def AList.update_keys)

lemma dict_keys_delitem:
  "set (dict_keys (dict_delitem k d)) = set (dict_keys d) - {k}"
  by (auto simp: dict_keys_def dict_delitem_def AList.delete_eq)

lemma map_of_dict_delitem: "map_of (dict_delitem k d) = (map_of d)(k := None)"
  by (simp add: dict_delitem_def AList.delete_conv')

lemma dict_delitem_filter: "dict_delitem k d = filter (\<lambda>p. fst p \<noteq> k) d"
  by (auto simp: dict_delitem_def AList.delete_eq intro: filter_cong)

lemma map_of_dict_setitem: "map_of (dict_setitem k v d) = (map_of d)(k \<mapsto> v)"
  by (simp add: dict_setitem_def AList.update_conv')

lemma dict_setitem_new:
  "\<not> dict_contains k d \<Longrightarrow> dict_setitem k v d = d @ [(k, v)]"
  by (induction d) (auto simp: dict_contains_def dict_setitem_def)

lemma length_dict_setitem:
  "length (dict_setitem k v d) = (if dict_contains k d then length d else Suc (length d))"
  by (induction d) (auto simp: dict_setitem_def dict_contains_def)

lemma create_todo_eq:
  "create_todo todo uuid4 store = (dict_setitem (item_id todo) todo store, Inr todo)"
  by (simp add: create_todo_def uuid_truth_def)

lemma live_ids_Nil: "live_ids [] = {}"
  by (simp add: live_ids_def)

lemma live_ids_Create:
  "live_ids (ops @ [Create todo uuid4]) = insert (item_id todo) (live_ids ops)"
proof (rule set_eqI)
  fix i
  show "i \<in> live_ids (ops @ [Create todo uuid4]) \<longleftrightarrow> i \<in> insert (item_id todo) (live_ids ops)"
  proof
    assume "i \<in> live_ids (ops @ [Create todo uuid4])"
    then obtain k t u where k: "k < Suc (length ops)"
      and c: "(ops @ [Create todo uuid4]) ! k = Create t u" "item_id t = i"
      and d: "\<forall>j. k < j \<and> j < Suc (length ops) \<longrightarrow> (ops @ [Create todo uuid4]) ! j \<noteq> Delete i"
      by (auto simp: live_ids_def)
    show "i \<in> insert (item_id todo) (live_ids ops)"
    proof (cases "k < length ops")
      case True
      have "ops ! k = Create t u" using c True by (simp add: nth_append)
      moreover have "\<forall>j. k < j \<and> j < length ops \<longrightarrow> ops ! j \<noteq> Delete i"
        using d by (auto simp: nth_append split: if_splits)
      ultimately have "i \<in> live_ids ops" using True c by (auto simp: live_ids_def)
      then show ?thesis by simp
    next
      case False
      then have "k = length ops" using k by simp
      then show ?thesis using c by simp
    qed
  next
    assume "i \<in> insert (item_id todo) (live_ids ops)"
    then consider "i = item_id todo" | "i \<in> live_ids ops" by auto
    then show "i \<in> live_ids (ops @ [Create todo uuid4])"
    proof cases
      case 1
      then show ?thesis
        unfolding live_ids_def by (auto intro!: exI[of _ "length ops"])
    next
      case 2
      then obtain k t u where k: "k < length ops" and c: "ops ! k = Create t u" "item_id t = i"
        and d: "\<forall>j. k < j \<and> j < length ops \<longrightarrow> ops ! j \<noteq> Delete i"
        by (auto simp: live_ids_def)
      have "\<forall>j. k < j \<and> j < length (ops @ [Create todo uuid4]) \<longrightarrow>
              (ops @ [Create todo uuid4]) ! j \<noteq> Delete i"
        using d by (auto simp: nth_append)
      moreover have "(ops @ [Create todo uuid4]) ! k = Create t u"
        using k c by (simp add: nth_append)
      ultimately show ?thesis
        unfolding live_ids_def using k c(2) by (auto intro!: exI[of _ k])
    qed
  qed
qed

lemma live_ids_Delete: "live_ids (ops @ [Delete i]) = live_ids ops - {i}"
proof (rule set_eqI)
  fix x
  show "x \<in> live_ids (ops @ [Delete i]) \<longleftrightarrow> x \<in> live_ids ops - {i}"
  proof
    assume "x \<in> live_ids (ops @ [Delete i])"
    then obtain k t u where k: "k < Suc (length ops)"
      and c: "(ops @ [Delete i]) ! k = Create t u" "item_id t = x"
      and d: "\<forall>j. k < j \<and> j < Suc (length ops) \<longrightarrow> (ops @ [Delete i]) ! j \<noteq> Delete x"
      by (auto simp: live_ids_def)
    have kl: "k < length ops" using k c by (cases "k = length ops") auto
    have "ops ! k = Create t u" using c kl by (simp add: nth_append)
    moreover have "\<forall>j. k < j \<and> j < length ops \<longrightarrow> ops ! j \<noteq> Delete x"
      using d by (auto simp: nth_append split: if_splits)
    ultimately have "x \<in> live_ids ops" using kl c by (auto simp: live_ids_def)
    moreover have "x \<noteq> i" using d[rule_format, of "length ops"] kl by auto
    ultimately show "x \<in> live_ids ops - {i}" by simp
  next
    assume "x \<in> live_ids ops - {i}"
    then have xi: "x \<noteq> i" and "x \<in> live_ids ops" by auto
    then obtain k t u where k: "k < length ops" and c: "ops ! k = Create t u" "item_id t = x"
      and d: "\<forall>j. k < j \<and> j < length ops \<longrightarrow> ops ! j \<noteq> Delete x"
      by (auto simp: live_ids_def)
    have "\<forall>j. k < j \<and> j < length (ops @ [Delete i]) \<longrightarrow> (ops @ [Delete i]) ! j \<noteq> Delete x"
      using d xi by (auto simp: nth_append)
    moreover have "(ops @ [Delete i]) ! k = Create t u"
      using k c by (simp add: nth_append)
    ultimately show "x \<in> live_ids (ops @ [Delete i])"
      unfolding live_ids_def using k c(2) by (auto intro!: exI[of _ k])
  qed
qed

lemma apply_op_Create_keys:
  "set (dict_keys (apply_op store (Create todo uuid4))) =
     insert (item_id todo) (set (dict_keys store))"
  by (simp add: create_todo_eq dict_keys_setitem)

lemma apply_op_Delete_keys:
  "set (dict_keys (apply_op store (Delete i))) = set (dict_keys store) - {i}"
proof (cases "dict_contains i store")
  case True
  then show ?thesis by (simp add: delete_todo_def dict_keys_delitem)
next
  case False
  then have "i \<notin> set (dict_keys store)" by (simp add: dict_contains_def dict_keys_def)
  with False show ?thesis by (simp add: delete_todo_def)
qed

lemma run_ops_keys: "set (dict_keys (run_ops ops)) = live_ids ops"
proof (induction ops rule: rev_induct)
  case Nil
  show ?case by (simp add: run_ops_def live_ids_Nil dict_keys_def)
next
  case (snoc op ops)
  then show ?case
    by (cases op) (simp_all only: run_ops_def foldl_append foldl.simps apply_op_Create_keys apply_op_Delete_keys live_ids_Create live_ids_Delete)
qed

lemma set_update_subset: "set (AList.update k v al) \<subseteq> insert (k, v) (set al)"
  by (induction al) auto

lemma keyed_apply_op: "keyed store \<Longrightarrow> keyed (apply_op store op)"
proof (cases op)
  case (Create t u)
  assume "keyed store"
  then show ?thesis using set_update_subset[of "item_id t" t store]
    by (auto simp: Create keyed_def list_all_iff create_todo_eq dict_setitem_def)
next
  case (Delete i)
  assume "keyed store"
  then show ?thesis
    by (auto simp: Delete keyed_def list_all_iff delete_todo_def dict_delitem_filter)
qed

lemma keyed_run_ops: "keyed (run_ops ops)"
  by (induction ops rule: rev_induct) (simp_all add: run_ops_def keyed_apply_op, simp add: keyed_def)

lemma keyed_list_ids: "keyed store \<Longrightarrow> list_ids store = dict_keys store"
  by (auto simp: keyed_def list_all_iff list_ids_def get_todos_def dict_values_def dict_keys_def)

text \<open>
  Claim C1. After any finite sequence of create and delete requests served from the empty
  Store, the identifiers of the records that the list endpoint returns are exactly the
  identifiers created by some request of the sequence and not deleted by a later one.
\<close>

theorem list_after_create_delete:
  "set (list_ids (run_ops ops)) =
     {i. \<exists>k<length ops. (\<exists>todo uuid4. ops ! k = Create todo uuid4 \<and> item_id todo = i) \<and>
           (\<forall>j. k < j \<and> j < length ops \<longrightarrow> ops ! j \<noteq> Delete i)}"
  using run_ops_keys[of ops] keyed_list_ids[OF keyed_run_ops, of ops]
  by (simp add: live_ids_def)

theorem list_after_create_delete_witness:
  "list_ids (run_ops [Create milk 7, Create mom 8, Delete 1]) = [2] \<and>
   {i. \<exists>k<length [Create milk 7, Create mom 8, Delete 1].
         (\<exists>todo uuid4. [Create milk 7, Create mom 8, Delete 1] ! k = Create todo uuid4 \<and>
            item_id todo = i) \<and>
         (\<forall>j. k < j \<and> j < length [Create milk 7, Create mom 8, Delete 1] \<longrightarrow>
            [Create milk 7, Create mom 8, Delete 1] ! j \<noteq> Delete i)} = {2}"
proof -
  have run: "list_ids (run_ops [Create milk 7, Create mom 8, Delete 1]) = [2]"
    by (simp add: list_ids_def run_ops_def get_todos_def create_todo_eq delete_todo_def
          dict_setitem_def dict_delitem_def dict_contains_def dict_values_def
          milk_def mom_def)
  show ?thesis
    using list_after_create_delete [of "[Create milk 7, Create mom 8, Delete 1]"]
    unfolding run by simp
qed

text \<open>
  Claim C3. Deleting an identifier that is not a key of the Store raises the 404
  \<^verbatim>\<open>HTTPException\<close> (the not-found error) and returns the Store as it was; deleting an
  identifier that is a key succeeds, takes exactly that key out of the mapping, and
  leaves every other entry, in its order, as it was.
\<close>

theorem delete_todo_spec:
  "(\<not> dict_contains todo_id store \<longrightarrow>
      delete_todo todo_id store = (store, Inl not_found)) \<and>
   (dict_contains todo_id store \<longrightarrow>
      snd (delete_todo todo_id store) = Inr ''Todo deleted successfully'' \<and>
      map_of (fst (delete_todo todo_id store)) = (map_of store)(todo_id := None) \<and>
      fst (delete_todo todo_id store) = filter (\<lambda>p. fst p \<noteq> todo_id) store)"
proof (intro conjI impI)
  assume "\<not> dict_contains todo_id store"
  then show "delete_todo todo_id store = (store, Inl not_found)"
    by (simp add: delete_todo_def)
next
  assume "dict_contains todo_id store"
  then show "snd (delete_todo todo_id store) = Inr ''Todo deleted successfully''"
    by (simp add: delete_todo_def)
next
  assume "dict_contains todo_id store"
  then show "map_of (fst (delete_todo todo_id store)) = (map_of store)(todo_id := None)"
    by (simp add: delete_todo_def map_of_dict_delitem)
next
  assume "dict_contains todo_id store"
  then show "fst (delete_todo todo_id store) = filter (\<lambda>p. fst p \<noteq> todo_id) store"
    by (simp add: delete_todo_def dict_delitem_filter)
qed

theorem delete_todo_spec_witness:
  "\<not> dict_contains (2::uuid) [(1, milk)] \<and>
   delete_todo 2 [(1, milk)] = ([(1, milk)], Inl not_found) \<and>
   dict_contains (1::uuid) [(1, milk), (2, mom)] \<and>
   delete_todo 1 [(1, milk), (2, mom)] = ([(2, mom)], Inr ''Todo deleted successfully'')"
  using delete_todo_spec [of 2 "[(1, milk)]"] delete_todo_spec [of 1 "[(1, milk), (2, mom)]"]
  by (simp add: dict_contains_def prod_eq_iff)

text \<open>
  Claim C4, as the code has it. The record that create returns carries the identifier of
  the validated request: the one the client sent, or the one \<^verbatim>\<open>uuid4()\<close> generated when
  the request has none. When that identifier is not yet a key of the Store, the record
  is appended and the Store has exactly one more entry; when it already is a key, the
  entry under it is replaced and the number of entries stays the same.
\<close>

theorem create_todo_size:
  "item_id (TodoItem_validate body uuid4 now) =
      (case body_id body of None \<Rightarrow> uuid4 | Some i \<Rightarrow> i) \<and>
   snd (create_todo todo uuid4' store) = Inr todo \<and>
   map_of (fst (create_todo todo uuid4' store)) = (map_of store)(item_id todo \<mapsto> todo) \<and>
   (\<not> dict_contains (item_id todo) store \<longrightarrow>
      fst (create_todo todo uuid4' store) = store @ [(item_id todo, todo)] \<and>
      length (fst (create_todo todo uuid4' store)) = length store + 1) \<and>
   (dict_contains (item_id todo) store \<longrightarrow>
      length (fst (create_todo todo uuid4' store)) = length store)"
  by (simp add: TodoItem_validate_def create_todo_eq map_of_dict_setitem dict_setitem_new
        length_dict_setitem)

theorem create_todo_size_witness:
  "\<not> dict_contains (item_id mom) [(1, milk)] \<and>
   create_todo mom 7 [(1, milk)] = ([(1, milk), (2, mom)], Inr mom) \<and>
   dict_contains (item_id milk) [(1, milk)] \<and>
   length (fst (create_todo milk 7 [(1, milk)])) = 1"
  using create_todo_size [of "\<lparr> body_id = None, body_title = ''Call mom'', body_created_at = None \<rparr>"
          2 20 mom 7 "[(1, milk)]"]
        create_todo_size [of "\<lparr> body_id = None, body_title = ''Call mom'', body_created_at = None \<rparr>"
          2 20 milk 7 "[(1, milk)]"]
  by (simp add: dict_contains_def milk_def mom_def prod_eq_iff)

text \<open>
  The identifier of a create request need not be fresh: a second create with the
  identifier of a stored record succeeds, returns a record whose identifier is already
  a key, and leaves the number of entries as it was.
\<close>

theorem create_todo_fresh_counterexample:
  "snd (create_todo milk 7 [(1, milk)]) = Inr milk \<and>
   dict_contains (item_id milk) [(1, milk)] \<and>
   length (fst (create_todo milk 7 [(1, milk)])) = length [(1, milk)]"
  by (simp add: create_todo_eq dict_setitem_def dict_contains_def milk_def)

text \<open>
  Claim C2, as the code has it. For every record of a create request, whatever its title,
  empty after trimming or not, create succeeds, stores the record and returns it. In the
  input form of the client, \<^verbatim>\<open>handleSubmit\<close> hands the trimmed text to the add callback and
  clears the field when the text is not empty after trimming; when it is empty after
  trimming, it calls nothing and leaves the field as it is.
\<close>

theorem create_todo_any_title:
  "snd (create_todo todo uuid4 store) = Inr todo \<and>
   map_of (fst (create_todo todo uuid4 store)) (item_id todo) = Some todo \<and>
   (trim title_field = [] \<longrightarrow> handleSubmit title_field = (None, title_field)) \<and>
   (trim title_field \<noteq> [] \<longrightarrow> handleSubmit title_field = (Some (trim title_field), []))"
  by (simp add: create_todo_eq map_of_dict_setitem handleSubmit_def)

theorem create_todo_any_title_witness:
  "trim ([0x00A0] @ js ''  '' @ [0x3000]) = [] \<and>
   handleSubmit ([0x00A0] @ js ''  '' @ [0x3000]) = (None, [0x00A0] @ js ''  '' @ [0x3000]) \<and>
   trim ([0x00A0] @ js '' Buy milk '' @ [0x2028]) \<noteq> [] \<and>
   handleSubmit ([0x00A0] @ js '' Buy milk '' @ [0x2028]) = (Some (js ''Buy milk''), [])"
  using create_todo_any_title [of milk 7 "[]" "[0x00A0] @ js ''  '' @ [0x3000]"]
        create_todo_any_title [of milk 7 "[]" "[0x00A0] @ js '' Buy milk '' @ [0x2028]"]
  by (simp add: trim_def is_white_space_def js_def)

text \<open>
  A create request with the empty title, which is empty before and after any trimming, is
  served like any other: the endpoint returns the record and the Store holds it.
\<close>

theorem create_todo_empty_title_counterexample:
  "title untitled = [] \<and>
   snd (create_todo untitled 7 []) = Inr untitled \<and>
   fst (create_todo untitled 7 []) = [(3, untitled)]"
  by (simp add: create_todo_eq dict_setitem_def untitled_def)

text \<open>
  Claim C8. An update keeps the creation timestamp: under every key, the \<^verbatim>\<open>created_at\<close>
  of the stored record is the same before and after \<^verbatim>\<open>update_todo\<close>; the record stored
  under the updated key is the record of the request with the old \<^verbatim>\<open>created_at\<close> put in.
\<close>

theorem update_todo_created_at:
  "map_option created_at (dict_getitem k (fst (update_todo todo_id updated_todo store))) =
     map_option created_at (dict_getitem k store) \<and>
   (dict_getitem todo_id store = Some old \<longrightarrow>
      dict_getitem todo_id (fst (update_todo todo_id updated_todo store)) =
        Some (updated_todo\<lparr>created_at := created_at old\<rparr>))"
  by (auto simp: update_todo_def dict_getitem_def map_of_dict_setitem Let_def split: option.splits)

theorem update_todo_created_at_witness:
  "dict_getitem 1 [(1, milk)] = Some milk \<and>
   dict_getitem 1 (fst (update_todo 1 mom [(1, milk)])) =
     Some \<lparr> item_id = 2, title = ''Call mom'', created_at = 10 \<rparr>"
  using update_todo_created_at [of 1 1 mom "[(1, milk)]" milk]
  by (simp add: dict_getitem_def milk_def mom_def)

section \<open>Properties of the client\<close>

text \<open>
  Claim C5, as the code has it. A message with the tag \<^verbatim>\<open>create\<close> appends its record to
  the end of the list of the client, whether or not a record with the same identifier is
  in the list; handling the same message twice appends the record twice.
\<close>

theorem create_event_appends:
  "data_type d = ''create'' \<Longrightarrow>
     handleWebSocketMessage d s = s\<lparr>todos := todos s @ [data_todo d]\<rparr> \<and>
     todos (handleWebSocketMessage d (handleWebSocketMessage d s)) =
       todos s @ [data_todo d, data_todo d]"
  by (simp add: handleWebSocketMessage_def)

theorem create_event_appends_witness:
  "data_type (create_message mom_ts) = ''create'' \<and>
   todos (handleWebSocketMessage (create_message mom_ts) (App_initial\<lparr>todos := [milk_ts]\<rparr>)) =
     [milk_ts, mom_ts]"
  using create_event_appends [of "create_message mom_ts" "App_initial\<lparr>todos := [milk_ts]\<rparr>"]
  by (simp add: create_message_def)

text \<open>
  Handling one \<^verbatim>\<open>create\<close> message twice gives a list with the record in it twice, which is
  not the list after handling it once.
\<close>

theorem create_event_twice_counterexample:
  "todos (handleWebSocketMessage (create_message milk_ts)
            (handleWebSocketMessage (create_message milk_ts) App_initial)) = [milk_ts, milk_ts] \<and>
   todos (handleWebSocketMessage (create_message milk_ts) App_initial) = [milk_ts]"
  by (simp add: handleWebSocketMessage_def create_message_def App_initial_def)

text \<open>
  Claim C6. Handling a message with the tag \<^verbatim>\<open>delete\<close> twice in succession gives the same
  state as handling it once; when no record of the list has the identifier of the
  message, the state is unchanged.
\<close>

theorem delete_event_idempotent:
  "data_type d = ''delete'' \<Longrightarrow>
     handleWebSocketMessage d (handleWebSocketMessage d s) = handleWebSocketMessage d s \<and>
     (data_id d \<notin> set (map ts_id (todos s)) \<longrightarrow> handleWebSocketMessage d s = s)"
proof
  assume d: "data_type d = ''delete''"
  show "handleWebSocketMessage d (handleWebSocketMessage d s) = handleWebSocketMessage d s"
    using d by (simp add: handleWebSocketMessage_def)
  show "data_id d \<notin> set (map ts_id (todos s)) \<longrightarrow> handleWebSocketMessage d s = s"
  proof
    assume "data_id d \<notin> set (map ts_id (todos s))"
    then have "filter (\<lambda>todo. ts_id todo \<noteq> data_id d) (todos s) = todos s"
      by (force simp: filter_id_conv)
    then show "handleWebSocketMessage d s = s"
      using d by (simp add: handleWebSocketMessage_def)
  qed
qed

theorem delete_event_idempotent_witness:
  "data_type (delete_message ''a1'') = ''delete'' \<and>
   todos (handleWebSocketMessage (delete_message ''a1'') (App_initial\<lparr>todos := [milk_ts, mom_ts]\<rparr>)) = [mom_ts] \<and>
   handleWebSocketMessage (delete_message ''a1'')
     (handleWebSocketMessage (delete_message ''a1'') (App_initial\<lparr>todos := [milk_ts, mom_ts]\<rparr>)) =
   handleWebSocketMessage (delete_message ''a1'') (App_initial\<lparr>todos := [milk_ts, mom_ts]\<rparr>) \<and>
   data_id (delete_message ''a1'') \<notin> set (map ts_id (todos (App_initial\<lparr>todos := [mom_ts]\<rparr>))) \<and>
   handleWebSocketMessage (delete_message ''a1'') (App_initial\<lparr>todos := [mom_ts]\<rparr>) =
     App_initial\<lparr>todos := [mom_ts]\<rparr>"
  using delete_event_idempotent [of "delete_message ''a1''" "App_initial\<lparr>todos := [milk_ts, mom_ts]\<rparr>"]
        delete_event_idempotent [of "delete_message ''a1''" "App_initial\<lparr>todos := [mom_ts]\<rparr>"]
  by (simp add: delete_message_def handleWebSocketMessage_def milk_ts_def mom_ts_def)

text \<open>
  Claim C10. A message whose tag is none of \<^verbatim>\<open>init\<close>, \<^verbatim>\<open>create\<close>, \<^verbatim>\<open>update\<close> and
  \<^verbatim>\<open>delete\<close> leaves the state of the client, and so its list, as it was.
\<close>

theorem unknown_message_ignored:
  "data_type d \<notin> set [''init'', ''create'', ''update'', ''delete''] \<Longrightarrow>
     handleWebSocketMessage d s = s"
  by (simp add: handleWebSocketMessage_def)

theorem unknown_message_ignored_witness:
  "data_type ping_message \<notin> set [''init'', ''create'', ''update'', ''delete''] \<and>
   handleWebSocketMessage ping_message (App_initial\<lparr>todos := [milk_ts]\<rparr>) =
     App_initial\<lparr>todos := [milk_ts]\<rparr>"
  using unknown_message_ignored [of ping_message "App_initial\<lparr>todos := [milk_ts]\<rparr>"]
  by (simp add: ping_message_def)

subsection \<open>The page after the mount\<close>

lemma loadTodos_resume_first_render:
  "loadTodos_resume (wsConnected App_initial) (Some data) s = s\<lparr>todos := data\<rparr>"
  by (simp add: loadTodos_resume_def App_initial_def)

lemma App_mount_eq:
  "App_mount = \<lparr> app = App_initial,
       api = \<lparr> sockets = [\<lparr> ws_readyState = CONNECTING, ws_onclose = True \<rparr>], socket = Some 0,
               reconnectTimeout = None, isConnecting = True, timers = [], next_timer = 1 \<rparr> \<rparr>"
  by (simp add: App_mount_def loadTodos_start_def App_initial_def connectWebSocket_def
        api_initial_def socket_is_open_def timeout_truth_def)

lemma socket_onclose_eq:
  "socket_onclose st =
     st\<lparr> isConnecting := False, timers := timers st @ [(next_timer st, 5000)],
         next_timer := Suc (next_timer st), reconnectTimeout := Some (next_timer st) \<rparr>"
  by (simp add: socket_onclose_def setTimeout_def)

text \<open>
  Closing a \<^verbatim>\<open>WebSocket\<close> whose \<^verbatim>\<open>onclose\<close> holds the handler adds exactly one pending
  timeout, of 5000 milliseconds, and does not touch the state of \<^verbatim>\<open>App\<close>.
\<close>

lemma close_schedules_one_reconnect:
  assumes "h < length (sockets (api p))" and "ws_onclose (sockets (api p) ! h)"
  shows "timers (api (page_step p (SocketClose h))) =
           timers (api p) @ [(next_timer (api p), 5000)]"
    and "app (page_step p (SocketClose h)) = app p"
  using assms by (simp_all add: socket_onclose_eq Let_def)

text \<open>
  Claim C7. The snapshot is handled first: the list is the list of the snapshot and
  \<^verbatim>\<open>wsConnected\<close> is set. The request of \<^verbatim>\<open>loadTodos\<close> settles afterwards, with the empty
  list it fetched earlier. The guard of \<^verbatim>\<open>loadTodos\<close> reads the \<^verbatim>\<open>wsConnected\<close> of the first
  render, which is false, so the late result replaces the list of the snapshot.
\<close>

theorem late_fetch_overwrites_snapshot:
  "wsConnected (app (page_run [SocketOpen 0, SocketMessage 0 (init_message [milk_ts])])) \<and>
   todos (app (page_run [SocketOpen 0, SocketMessage 0 (init_message [milk_ts])])) = [milk_ts] \<and>
   todos (app (page_run [SocketOpen 0, SocketMessage 0 (init_message [milk_ts]),
                         FetchSettled (Some [])])) = []"
  by (simp add: page_run_def App_mount_eq handleWebSocketMessage_def init_message_def
        loadTodos_resume_def App_initial_def socket_onopen_def)

text \<open>
  Claim C9. The connection opens, the snapshot is handled, and the connection closes.
  One reconnect is pending, 5000 milliseconds ahead, and no connection is open; the
  indicator still reads \<^verbatim>\<open>Live updates connected\<close>, since nothing sets \<^verbatim>\<open>wsConnected\<close> back.
\<close>

theorem indicator_after_close:
  "live_connection (page_run [SocketOpen 0, SocketMessage 0 (init_message [milk_ts])]) \<and>
   \<not> live_connection
       (page_run [SocketOpen 0, SocketMessage 0 (init_message [milk_ts]), SocketClose 0]) \<and>
   timers (api (page_run [SocketOpen 0, SocketMessage 0 (init_message [milk_ts]), SocketClose 0]))
     = [(1, 5000)] \<and>
   indicator (app (page_run [SocketOpen 0, SocketMessage 0 (init_message [milk_ts]),
                             SocketClose 0])) = ''Live updates connected''"
  by (simp add: page_run_def App_mount_eq handleWebSocketMessage_def init_message_def
        socket_onopen_def socket_onclose_eq live_connection_def socket_is_open_def indicator_def)

end
